theory Spec2Isabelle
  imports Complex_Main
begin

section \<open>Data model of the BoxFit client (src/frontend/src/App.js)\<close>

text \<open>
  A shape is an array of rows of numbers; a sub-cell is filled when its entry is \<open>1\<close>
  (the source tests \<open>shape[row][col] === 1\<close>). Rows may have different lengths: the
  source reads \<open>shape[row].length\<close> for each row.
\<close>

type_synonym shape = "int list list"

text \<open>
  A grid cell is \<open>null\<close> (empty, \<open>None\<close>) or an object carrying a colour. The grid is an
  array of rows of cells.
\<close>

datatype cell = Cell (cell_color: string)

type_synonym grid = "cell option list list"

text \<open>
  A piece object: \<open>shape\<close> is always present, \<open>color\<close> and \<open>id\<close> may be absent
  (\<open>undefined\<close>, \<open>None\<close>). The catalog entries and the pieces offered by the server have a
  shape and a colour; \<open>getNewPiece\<close> adds the \<open>id\<close>.
\<close>

record piece =
  shape :: shape
  color :: "string option"
  piece_id :: "int option"

datatype player = Player (player_color: string) (connected: bool)

record game_state =
  grid :: grid
  players :: "string \<rightharpoonup> player"
  score :: int
  nextPiece :: "piece option"
  playerName_gs :: string
  playerColor :: string

record drag_state =
  isDragging :: bool
  startX :: real
  startY :: real

record position =
  pos_x :: real
  pos_y :: real

text \<open>
  The open WebSocket held in \<open>wsRef.current\<close>. Its \<open>onmessage\<close> handler is a closure
  created inside \<open>connectToGame\<close>; \<open>handler_currentPiece\<close> is the value that the name
  \<open>currentPiece\<close> has in that closure.
\<close>

record web_socket =
  ws_roomId :: string
  ws_playerName :: string
  handler_currentPiece :: "piece option"

text \<open>The bounding rectangle of the grid element (\<open>getBoundingClientRect()\<close>).\<close>

record rect =
  rect_left :: real
  rect_top :: real

record mouse_event =
  clientX :: real
  clientY :: real

text \<open>Messages received from the server (\<open>message.type\<close> with \<open>message.data\<close>).\<close>

datatype server_msg =
    GameStateMsg game_state
  | PlayerJoined "string \<rightharpoonup> player"
  | PlayerLeft "string \<rightharpoonup> player"
  | PiecePlaced grid int "piece option"
  | PieceRotated shape
  | OtherMsg

text \<open>Messages sent to the server: \<open>rotate_piece\<close> and \<open>place_piece\<close>.\<close>

datatype client_msg =
    RotatePieceMsg shape
  | PlacePieceMsg shape int int "string option"

text \<open>
  The state of the \<open>App\<close> component: its \<open>useState\<close> cells and its two refs, and
  two fields that make effects explicit:
  \<^item> \<open>connectToGame_currentPiece\<close> is the value of \<open>currentPiece\<close> seen by the memoised
    \<open>connectToGame\<close> callback. \<open>useCallback\<close> keeps the callback of an earlier render
    until one of its dependencies \<open>roomId\<close>, \<open>playerName\<close>, \<open>WS_URL\<close> changes, and
    \<open>currentPiece\<close> is not among them.
  \<^item> \<open>sent\<close> is the log of the messages passed to \<open>wsRef.current.send\<close>, oldest first.
\<close>

record client =
  gameState :: game_state
  roomId :: string
  playerName :: string
  isConnected :: bool
  currentPiece :: "piece option"
  dragState :: drag_state
  piecePosition :: position
  isValidPlacement :: bool
  wsRef :: "web_socket option"
  gridRef :: "rect option"
  connectToGame_currentPiece :: "piece option"
  sent :: "client_msg list"

section \<open>The piece catalog\<close>

definition TETRIS_PIECES :: "(string \<times> piece) list" where
  "TETRIS_PIECES =
    [(''I'', \<lparr>shape = [[1, 1, 1, 1]], color = Some ''#00FFFF'', piece_id = None\<rparr>),
     (''O'', \<lparr>shape = [[1, 1], [1, 1]], color = Some ''#FFFF00'', piece_id = None\<rparr>),
     (''T'', \<lparr>shape = [[0, 1, 0], [1, 1, 1]], color = Some ''#800080'', piece_id = None\<rparr>),
     (''L'', \<lparr>shape = [[1, 0, 0], [1, 1, 1]], color = Some ''#FFA500'', piece_id = None\<rparr>),
     (''J'', \<lparr>shape = [[0, 0, 1], [1, 1, 1]], color = Some ''#0000FF'', piece_id = None\<rparr>),
     (''S'', \<lparr>shape = [[0, 1, 1], [1, 1, 0]], color = Some ''#00FF00'', piece_id = None\<rparr>),
     (''Z'', \<lparr>shape = [[1, 1, 0], [0, 1, 1]], color = Some ''#FF0000'', piece_id = None\<rparr>)]"

section \<open>The client-side placement validator\<close>

text \<open>
  The test \<open>gameState.grid[gridY] && gameState.grid[gridY][gridX] !== null\<close>. Reading an
  array out of range gives \<open>undefined\<close>: a missing row is falsy, so the conjunction is
  false; a missing cell of an existing row is \<open>undefined\<close>, which is not \<open>null\<close>, so the
  conjunction is true.
\<close>

definition grid_blocked :: "grid \<Rightarrow> int \<Rightarrow> int \<Rightarrow> bool" where
  "grid_blocked g gridY gridX =
     (if 0 \<le> gridY \<and> nat gridY < length g
      then (if 0 \<le> gridX \<and> nat gridX < length (g ! nat gridY)
            then g ! nat gridY ! nat gridX \<noteq> None
            else True)
      else False)"

text \<open>
  The inner loop over \<open>col\<close>, from column \<open>col\<close> on; the list is the rest of
  \<open>shape[row]\<close>. \<open>False\<close> is the early \<open>return false\<close>.
\<close>

fun check_cols :: "grid \<Rightarrow> real \<Rightarrow> real \<Rightarrow> nat \<Rightarrow> nat \<Rightarrow> int list \<Rightarrow> bool" where
  "check_cols g x y row col [] = True"
| "check_cols g x y row col (v # vs) =
     (if v = 1 then
        (let gridX = \<lfloor>x / 40\<rfloor> + int col;
             gridY = \<lfloor>y / 40\<rfloor> + int row
         in if gridX < 0 \<or> gridX \<ge> 10 \<or> gridY < 0 \<or> gridY \<ge> 10 then False
            else if grid_blocked g gridY gridX then False
            else check_cols g x y row (Suc col) vs)
      else check_cols g x y row (Suc col) vs)"

text \<open>The outer loop over \<open>row\<close>, from row \<open>row\<close> on; the list is the rest of \<open>shape\<close>.\<close>

fun check_rows :: "grid \<Rightarrow> real \<Rightarrow> real \<Rightarrow> nat \<Rightarrow> int list list \<Rightarrow> bool" where
  "check_rows g x y row [] = True"
| "check_rows g x y row (r # rs) =
     (if check_cols g x y row 0 r then check_rows g x y (Suc row) rs else False)"

text \<open>
  \<open>checkValidPlacement(shape, x, y)\<close>; the grid it reads from its closure
  (\<open>gameState.grid\<close>) is the first argument.
\<close>

definition checkValidPlacement :: "grid \<Rightarrow> shape \<Rightarrow> real \<Rightarrow> real \<Rightarrow> bool" where
  "checkValidPlacement g sh x y = check_rows g x y 0 sh"

text \<open>Sub-cell \<open>(r, c)\<close> of a shape is filled.\<close>

definition filled :: "shape \<Rightarrow> nat \<Rightarrow> nat \<Rightarrow> bool" where
  "filled sh r c \<longleftrightarrow> r < length sh \<and> c < length (sh ! r) \<and> sh ! r ! c = 1"

text \<open>What the validator requires of one absolute cell.\<close>

definition cell_ok :: "grid \<Rightarrow> int \<Rightarrow> int \<Rightarrow> bool" where
  "cell_ok g gridY gridX \<longleftrightarrow>
     0 \<le> gridX \<and> gridX < 10 \<and> 0 \<le> gridY \<and> gridY < 10 \<and> \<not> grid_blocked g gridY gridX"

text \<open>
  The call as the component makes it: the validator reads \<open>gameState.grid\<close> from the
  component state and assigns nothing but its own loop variables, so the state comes
  back as it went in.
\<close>

definition checkValidPlacement_call :: "shape \<Rightarrow> real \<Rightarrow> real \<Rightarrow> client \<Rightarrow> bool \<times> client" where
  "checkValidPlacement_call sh x y st = (checkValidPlacement (grid (gameState st)) sh x y, st)"

section \<open>The component: initial state and handlers\<close>

definition initial_grid :: grid where
  "initial_grid = replicate 10 (replicate 10 None)"

definition initial_client :: client where
  "initial_client =
    \<lparr>gameState = \<lparr>grid = initial_grid, players = Map.empty, score = 0, nextPiece = None,
                   playerName_gs = [], playerColor = []\<rparr>,
     roomId = [], playerName = [], isConnected = False, currentPiece = None,
     dragState = \<lparr>isDragging = False, startX = 0, startY = 0\<rparr>,
     piecePosition = \<lparr>pos_x = 0, pos_y = 0\<rparr>,
     isValidPlacement = True, wsRef = None, gridRef = None,
     connectToGame_currentPiece = None, sent = []\<rparr>"

text \<open>
  \<open>setRoomId\<close> and \<open>setPlayerName\<close> (the inputs of the join screen). A changed value
  renders the component again with a changed dependency of \<open>connectToGame\<close>, so the
  callback is made anew and sees the \<open>currentPiece\<close> of that render. An unchanged
  value does not render.
\<close>

definition setRoomId :: "string \<Rightarrow> client \<Rightarrow> client" where
  "setRoomId v st =
     (if v = roomId st then st
      else st\<lparr>roomId := v, connectToGame_currentPiece := currentPiece st\<rparr>)"

definition setPlayerName :: "string \<Rightarrow> client \<Rightarrow> client" where
  "setPlayerName v st =
     (if v = playerName st then st
      else st\<lparr>playerName := v, connectToGame_currentPiece := currentPiece st\<rparr>)"

text \<open>
  \<open>connectToGame\<close> opens the socket and installs \<open>onmessage\<close>, a closure in the scope
  of the memoised callback: the handler's \<open>currentPiece\<close> is the callback's.
\<close>

definition connectToGame :: "client \<Rightarrow> client" where
  "connectToGame st =
     (if roomId st = [] \<or> playerName st = [] \<or> wsRef st \<noteq> None then st
      else st\<lparr>wsRef := Some \<lparr>ws_roomId = roomId st, ws_playerName = playerName st,
                               handler_currentPiece = connectToGame_currentPiece st\<rparr>\<rparr>)"

definition joinGame :: "client \<Rightarrow> client" where
  "joinGame st = (if roomId st \<noteq> [] \<and> playerName st \<noteq> [] then connectToGame st else st)"

definition onopen :: "client \<Rightarrow> client" where
  "onopen st = st\<lparr>isConnected := True\<rparr>"

definition onclose :: "client \<Rightarrow> client" where
  "onclose st = st\<lparr>isConnected := False, wsRef := None\<rparr>"

text \<open>
  \<open>onmessage\<close>; \<open>cp\<close> is the handler's own \<open>currentPiece\<close>, tested by
  \<open>if (currentPiece)\<close>. The state setters are given functions of the previous state,
  which is the component's state at the time of the message; spreading a \<open>null\<close>
  previous piece gives an object with the shape only.
\<close>

fun onmessage :: "piece option \<Rightarrow> server_msg \<Rightarrow> client \<Rightarrow> client" where
  "onmessage cp (GameStateMsg d) st = st\<lparr>gameState := d\<rparr>"
| "onmessage cp (PlayerJoined ps) st = st\<lparr>gameState := (gameState st)\<lparr>players := ps\<rparr>\<rparr>"
| "onmessage cp (PlayerLeft ps) st = st\<lparr>gameState := (gameState st)\<lparr>players := ps\<rparr>\<rparr>"
| "onmessage cp (PiecePlaced g s np) st =
     st\<lparr>gameState := (gameState st)\<lparr>grid := g, score := s, nextPiece := np\<rparr>,
        currentPiece := None\<rparr>"
| "onmessage cp (PieceRotated sh) st =
     (if cp \<noteq> None
      then st\<lparr>currentPiece :=
                Some (case currentPiece st of
                        None \<Rightarrow> \<lparr>shape = sh, color = None, piece_id = None\<rparr>
                      | Some prev \<Rightarrow> prev\<lparr>shape := sh\<rparr>)\<rparr>
      else st)"
| "onmessage cp OtherMsg st = st"

text \<open>A message arrives on the open socket and is given to its handler.\<close>

definition receive :: "server_msg \<Rightarrow> client \<Rightarrow> client" where
  "receive m st =
     (case wsRef st of None \<Rightarrow> st | Some ws \<Rightarrow> onmessage (handler_currentPiece ws) m st)"

text \<open>\<open>getNewPiece\<close>; \<open>now\<close> is the reading of \<open>Date.now()\<close>.\<close>

definition getNewPiece :: "int \<Rightarrow> client \<Rightarrow> client" where
  "getNewPiece now st =
     (case nextPiece (gameState st) of
        None \<Rightarrow> st
      | Some np \<Rightarrow> st\<lparr>currentPiece := Some (np\<lparr>piece_id := Some now\<rparr>)\<rparr>)"

definition rotatePiece :: "client \<Rightarrow> client" where
  "rotatePiece st =
     (case currentPiece st of
        None \<Rightarrow> st
      | Some p \<Rightarrow> if wsRef st \<noteq> None then st\<lparr>sent := sent st @ [RotatePieceMsg (shape p)]\<rparr>
                  else st)"

definition handleMouseDown :: "mouse_event \<Rightarrow> client \<Rightarrow> client" where
  "handleMouseDown e st =
     (case currentPiece st of
        None \<Rightarrow> st
      | Some p \<Rightarrow>
          let st1 = st\<lparr>dragState := \<lparr>isDragging = True, startX = clientX e, startY = clientY e\<rparr>\<rparr>
          in case gridRef st of
               None \<Rightarrow> st1
             | Some r \<Rightarrow>
                 let x = clientX e - rect_left r - 20;
                     y = clientY e - rect_top r - 20
                 in st1\<lparr>piecePosition := \<lparr>pos_x = max 0 x, pos_y = max 0 y\<rparr>\<rparr>)"

definition handleMouseMove :: "mouse_event \<Rightarrow> client \<Rightarrow> client" where
  "handleMouseMove e st =
     (if \<not> isDragging (dragState st) then st
      else case currentPiece st of
        None \<Rightarrow> st
      | Some p \<Rightarrow>
          (case gridRef st of
             None \<Rightarrow> st
           | Some r \<Rightarrow>
               let x = clientX e - rect_left r - 20;
                   y = clientY e - rect_top r - 20;
                   clampedX = max 0 (min x 360);
                   clampedY = max 0 (min y 360);
                   st1 = st\<lparr>piecePosition := \<lparr>pos_x = clampedX, pos_y = clampedY\<rparr>\<rparr>;
                   (isValid, st2) = checkValidPlacement_call (shape p) clampedX clampedY st1
               in st2\<lparr>isValidPlacement := isValid\<rparr>))"

text \<open>
  \<open>handleMouseUp\<close>: the only place where a \<open>place_piece\<close> message is sent. The cell
  coordinates of the message are \<open>gridX\<close> and \<open>gridY\<close>.
\<close>

definition handleMouseUp :: "mouse_event \<Rightarrow> client \<Rightarrow> client" where
  "handleMouseUp e st =
     (if \<not> isDragging (dragState st) then st
      else case currentPiece st of
        None \<Rightarrow> st
      | Some p \<Rightarrow>
          let st1 = st\<lparr>dragState := \<lparr>isDragging = False, startX = 0, startY = 0\<rparr>\<rparr>;
              st4 = (case gridRef st1 of
                       None \<Rightarrow> st1
                     | Some r \<Rightarrow>
                         let x = clientX e - rect_left r;
                             y = clientY e - rect_top r;
                             gridX = \<lfloor>x / 40\<rfloor>;
                             gridY = \<lfloor>y / 40\<rfloor>;
                             (valid, st2) = checkValidPlacement_call (shape p) x y st1
                         in if valid \<and> wsRef st2 \<noteq> None
                            then st2\<lparr>sent := sent st2 @
                                        [PlacePieceMsg (shape p) gridX gridY (color p)]\<rparr>
                            else st2)
          in st4\<lparr>piecePosition := \<lparr>pos_x = 0, pos_y = 0\<rparr>, isValidPlacement := True\<rparr>)"

text \<open>What happens to the component, and the run of a sequence of events.\<close>

datatype event =
    SetRoomId string
  | SetPlayerName string
  | JoinGame
  | OnOpen
  | OnMessage server_msg
  | OnClose
  | GetNewPiece int
  | RotatePiece
  | MouseDown mouse_event
  | MouseMove mouse_event
  | MouseUp mouse_event

fun step :: "client \<Rightarrow> event \<Rightarrow> client" where
  "step st (SetRoomId v) = setRoomId v st"
| "step st (SetPlayerName v) = setPlayerName v st"
| "step st JoinGame = joinGame st"
| "step st OnOpen = onopen st"
| "step st (OnMessage m) = receive m st"
| "step st OnClose = onclose st"
| "step st (GetNewPiece now) = getNewPiece now st"
| "step st RotatePiece = rotatePiece st"
| "step st (MouseDown e) = handleMouseDown e st"
| "step st (MouseMove e) = handleMouseMove e st"
| "step st (MouseUp e) = handleMouseUp e st"

definition run :: "client \<Rightarrow> event list \<Rightarrow> client" where
  "run st es = foldl step st es"

section \<open>Rotation\<close>

text \<open>A matrix is an array of rows, as in the source; it is rectangular when all its rows
  have the length of the first.\<close>

definition rectangular :: "'a list list \<Rightarrow> bool" where
  "rectangular m \<longleftrightarrow> list_all (\<lambda>r. length r = length (hd m)) m"

text \<open>
  Modelled from the spec: the transpose of the rotation step. The rotation is done by the
  server, which is not among the sources; the client only sends \<open>rotate_piece\<close> and
  receives the rotated shape. The transpose of a \<open>rows \<times> cols\<close> matrix has one row for
  each column of the first row, so a shape (at least one row and one column) of
  \<open>rows \<times> cols\<close> becomes one of \<open>cols \<times> rows\<close>. An array of rows holds no column
  count apart from its rows: a matrix without cells has the transpose \<open>[]\<close>, which has
  no cells either.
\<close>

definition transpose_m :: "'a list list \<Rightarrow> 'a list list" where
  "transpose_m m =
     (case m of
        [] \<Rightarrow> []
      | r # _ \<Rightarrow> map (\<lambda>j. map (\<lambda>row. row ! j) m) [0..<length r])"

text \<open>
  Modelled from the spec: the 90-degree step, "transpose + row-reverse", turning a
  \<open>rows \<times> cols\<close> matrix into a \<open>cols \<times> rows\<close> one. Every row of the transpose is
  reversed, which is the quarter turn clockwise.
\<close>

definition rotate90 :: "'a list list \<Rightarrow> 'a list list" where
  "rotate90 m = map rev (transpose_m m)"

text \<open>
  Modelled from the spec: the other reading of "row-reverse", in which the order of the
  rows is reversed; it is the quarter turn in the other direction.
\<close>

definition rotate90_rows :: "'a list list \<Rightarrow> 'a list list" where
  "rotate90_rows m = rev (transpose_m m)"



text \<open>A matrix of \<open>n\<close> rows with \<open>k\<close> entries each.\<close>

definition dims :: "'a list list \<Rightarrow> nat \<Rightarrow> nat \<Rightarrow> bool" where
  "dims m n k \<longleftrightarrow> length m = n \<and> (\<forall>r \<in> set m. length r = k)"

text \<open>
  The cell of a matrix at row \<open>r\<close> and column \<open>c\<close>, if there is one; two matrices are
  equal cell for cell when they have the same cells at the same places.
\<close>

definition cell_at :: "'a list list \<Rightarrow> nat \<Rightarrow> nat \<Rightarrow> 'a option" where
  "cell_at m r c = (if r < length m \<and> c < length (m ! r) then Some (m ! r ! c) else None)"

definition same_cells :: "'a list list \<Rightarrow> 'a list list \<Rightarrow> bool" where
  "same_cells a b \<longleftrightarrow> (\<forall>r c. cell_at a r c = cell_at b r c)"

section \<open>Well-formed shapes\<close>

text \<open>A non-empty rectangular matrix of entries 0 and 1.\<close>

definition well_formed_shape :: "shape \<Rightarrow> bool" where
  "well_formed_shape sh \<longleftrightarrow>
     sh \<noteq> [] \<and> [] \<notin> set sh \<and> rectangular sh \<and> list_all (list_all (\<lambda>v. v = 0 \<or> v = 1)) sh"


section \<open>The validator, cell by cell\<close>

lemma check_cols_iff:
  "check_cols g x y row col vs \<longleftrightarrow>
     (\<forall>j < length vs. vs ! j = 1 \<longrightarrow>
        cell_ok g (\<lfloor>y / 40\<rfloor> + int row) (\<lfloor>x / 40\<rfloor> + int col + int j))"
proof (induction vs arbitrary: col)
  case Nil
  show ?case by simp
next
  case (Cons v vs)
  have split: "(\<forall>j < Suc (length vs). P j) \<longleftrightarrow> P 0 \<and> (\<forall>j < length vs. P (Suc j))" for P
    by (auto simp: less_Suc_eq_0_disj)
  show ?case
    by (simp add: Cons.IH split cell_ok_def Let_def add.assoc) (auto simp: algebra_simps)
qed

lemma check_rows_iff:
  "check_rows g x y row rs \<longleftrightarrow>
     (\<forall>i < length rs. \<forall>j < length (rs ! i). rs ! i ! j = 1 \<longrightarrow>
        cell_ok g (\<lfloor>y / 40\<rfloor> + int row + int i) (\<lfloor>x / 40\<rfloor> + int j))"
proof (induction rs arbitrary: row)
  case Nil
  show ?case by simp
next
  case (Cons r rs)
  have split: "(\<forall>i < Suc (length rs). P i) \<longleftrightarrow> P 0 \<and> (\<forall>i < length rs. P (Suc i))" for P
    by (auto simp: less_Suc_eq_0_disj)
  show ?case
    by (simp add: Cons.IH check_cols_iff split add.assoc) (auto simp: algebra_simps)
qed

lemma checkValidPlacement_iff:
  "checkValidPlacement g sh x y \<longleftrightarrow>
     (\<forall>r c. filled sh r c \<longrightarrow> cell_ok g (\<lfloor>y / 40\<rfloor> + int r) (\<lfloor>x / 40\<rfloor> + int c))"
  by (auto simp: checkValidPlacement_def check_rows_iff filled_def)

text \<open>On a 10x10 grid every in-range read finds a cell.\<close>

lemma grid_blocked_10:
  assumes "length g = 10" and "\<forall>r \<in> set g. length r = 10"
    and "0 \<le> gy" "gy < 10" "0 \<le> gx" "gx < 10"
  shows "grid_blocked g gy gx \<longleftrightarrow> g ! nat gy ! nat gx \<noteq> None"
proof -
  have row: "nat gy < length g" using assms(1,3,4) by linarith
  then have "g ! nat gy \<in> set g" by (rule nth_mem)
  then have "length (g ! nat gy) = 10" using assms(2) by blast
  then have col: "nat gx < length (g ! nat gy)" using assms(5,6) by linarith
  show ?thesis unfolding grid_blocked_def using row col assms(3,5) by presburger
qed

lemma initial_grid_10: "length initial_grid = 10" "\<forall>r \<in> set initial_grid. length r = 10"
  by (simp_all add: initial_grid_def)

lemma no_filled_iff: "(\<forall>r c. \<not> filled sh r c) \<longleftrightarrow> (\<forall>row \<in> set sh. 1 \<notin> set row)"
proof
  assume none: "\<forall>r c. \<not> filled sh r c"
  show "\<forall>row \<in> set sh. 1 \<notin> set row"
  proof (intro ballI notI)
    fix row assume "row \<in> set sh" and "1 \<in> set row"
    then obtain r c where "r < length sh" "sh ! r = row" "c < length row" "row ! c = 1"
      by (auto simp: in_set_conv_nth)
    then have "filled sh r c" by (simp add: filled_def)
    with none show False by blast
  qed
next
  assume "\<forall>row \<in> set sh. 1 \<notin> set row"
  then show "\<forall>r c. \<not> filled sh r c"
    by (auto simp: filled_def dest: nth_mem)
qed

text \<open>
  Claim C1. On a 10x10 grid, with the origin cell \<open>(row0, col0) = (\<lfloor>y / 40\<rfloor>, \<lfloor>x / 40\<rfloor>)\<close>
  of the pixel coordinates, \<open>checkValidPlacement\<close> returns true if and only if every
  filled sub-cell \<open>(r, c)\<close> of the shape has \<open>0 \<le> row0 + r < 10\<close>, \<open>0 \<le> col0 + c < 10\<close> and an
  empty grid cell at \<open>(row0 + r, col0 + c)\<close>.
\<close>

theorem checkValidPlacement_correct:
  assumes "length g = 10" and "\<forall>r \<in> set g. length r = 10"
  shows "checkValidPlacement g sh x y \<longleftrightarrow>
    (\<forall>r c. filled sh r c \<longrightarrow>
       0 \<le> \<lfloor>y / 40\<rfloor> + int r \<and> \<lfloor>y / 40\<rfloor> + int r < 10 \<and>
       0 \<le> \<lfloor>x / 40\<rfloor> + int c \<and> \<lfloor>x / 40\<rfloor> + int c < 10 \<and>
       g ! nat (\<lfloor>y / 40\<rfloor> + int r) ! nat (\<lfloor>x / 40\<rfloor> + int c) = None)"
  unfolding checkValidPlacement_iff cell_ok_def
  using grid_blocked_10 [OF assms] by blast

theorem checkValidPlacement_correct_witness:
  "length initial_grid = 10 \<and> list_all (\<lambda>r. length r = 10) initial_grid \<and>
   checkValidPlacement initial_grid [[0, 1, 0], [1, 1, 1]] 85 130 \<and>
   filled [[0, 1, 0], [1, 1, 1]] 1 2 \<and>
   \<lfloor>130 / 40 :: real\<rfloor> + int 1 = 4 \<and> \<lfloor>85 / 40 :: real\<rfloor> + int 2 = 4 \<and>
   initial_grid ! nat (\<lfloor>130 / 40 :: real\<rfloor> + int 1) ! nat (\<lfloor>85 / 40 :: real\<rfloor> + int 2) = None \<and>
   \<not> checkValidPlacement initial_grid [[0, 1, 0], [1, 1, 1]] 330 130"
proof -
  have ev: "checkValidPlacement initial_grid [[0, 1, 0], [1, 1, 1]] 85 130"
    by (simp add: checkValidPlacement_def grid_blocked_def initial_grid_def)
  have f: "filled [[0, 1, 0], [1, 1, 1]] 1 2"
    by (simp add: filled_def)
  have empty: "initial_grid ! nat (\<lfloor>130 / 40 :: real\<rfloor> + int 1) ! nat (\<lfloor>85 / 40 :: real\<rfloor> + int 2) = None"
    using ev f checkValidPlacement_correct [OF initial_grid_10, of "[[0, 1, 0], [1, 1, 1]]" 85 130]
    by blast
  have off: "\<not> (\<lfloor>330 / 40 :: real\<rfloor> + int 2 < 10)"
    by simp
  have no: "\<not> checkValidPlacement initial_grid [[0, 1, 0], [1, 1, 1]] 330 130"
    using f off checkValidPlacement_correct [OF initial_grid_10, of "[[0, 1, 0], [1, 1, 1]]" 330 130]
    by blast
  show ?thesis
    using ev f empty no initial_grid_10 by (simp add: list_all_iff)
qed

text \<open>
  Claim C4. For every grid, every shape and all pixel coordinates \<open>checkValidPlacement\<close>
  returns a boolean (the loops run over the rows and entries of the shape and every
  read of the grid is guarded); when the shape has a filled sub-cell and every filled
  sub-cell maps outside the 10x10 grid, the result is false.
\<close>

theorem checkValidPlacement_off_grid:
  "(checkValidPlacement g sh x y = True \<or> checkValidPlacement g sh x y = False) \<and>
   ((\<exists>r c. filled sh r c) \<and>
    (\<forall>r c. filled sh r c \<longrightarrow>
       \<not> (0 \<le> \<lfloor>y / 40\<rfloor> + int r \<and> \<lfloor>y / 40\<rfloor> + int r < 10 \<and>
          0 \<le> \<lfloor>x / 40\<rfloor> + int c \<and> \<lfloor>x / 40\<rfloor> + int c < 10))
    \<longrightarrow> checkValidPlacement g sh x y = False)"
  unfolding checkValidPlacement_iff cell_ok_def by auto

theorem checkValidPlacement_off_grid_witness:
  "filled [[1, 1, 1, 1]] 0 0 \<and> checkValidPlacement initial_grid [[1, 1, 1, 1]] 400 0 = False"
proof -
  have f: "filled [[1, 1, 1, 1]] 0 0"
    by (simp add: filled_def)
  then have some: "\<exists>r c. filled [[1, 1, 1, 1]] r c"
    by blast
  have off: "\<forall>r c. filled [[1, 1, 1, 1]] r c \<longrightarrow>
       \<not> (0 \<le> \<lfloor>0 / 40 :: real\<rfloor> + int r \<and> \<lfloor>0 / 40 :: real\<rfloor> + int r < 10 \<and>
          0 \<le> \<lfloor>400 / 40 :: real\<rfloor> + int c \<and> \<lfloor>400 / 40 :: real\<rfloor> + int c < 10)"
    by simp
  from f some off checkValidPlacement_off_grid [of initial_grid "[[1, 1, 1, 1]]" 400 0]
  show ?thesis by blast
qed

text \<open>
  Claim C10. A shape without a filled sub-cell (no entry is \<open>1\<close>, or there are no rows)
  is accepted on every grid at all pixel coordinates.
\<close>

theorem checkValidPlacement_no_filled:
  "\<forall>r c. \<not> filled sh r c \<Longrightarrow> checkValidPlacement g sh x y"
  by (simp add: checkValidPlacement_iff)

theorem checkValidPlacement_no_filled_witness:
  "(\<forall>r c. \<not> filled [[0, 0], [0, 0]] r c) \<and>
   checkValidPlacement [[Some (Cell ''#FF0000'')]] [[0, 0], [0, 0]] (- 4000) 99999"
proof -
  have h: "\<forall>r c. \<not> filled [[0, 0], [0, 0]] r c"
    by (simp add: no_filled_iff)
  from h checkValidPlacement_no_filled [OF h] show ?thesis by blast
qed

section \<open>Four rotations\<close>

lemma transpose_m_dims:
  assumes "dims m n k" and "0 < n"
  shows "transpose_m m = map (\<lambda>j. map (\<lambda>row. row ! j) m) [0..<k]"
proof -
  from assms obtain r rs where m: "m = r # rs" by (cases m) (auto simp: dims_def)
  with assms(1) have "length r = k" by (simp add: dims_def)
  with m show ?thesis by (simp add: transpose_m_def)
qed

lemma rotate90_dims:
  assumes "dims m n k" and "0 < n"
  shows "dims (rotate90 m) k n"
  using assms by (simp add: rotate90_def transpose_m_dims [OF assms] dims_def)

lemma rotate90_nth:
  assumes "dims m n k" and "0 < n" and "i < k" and "j < n"
  shows "rotate90 m ! i ! j = m ! (n - Suc j) ! i"
proof -
  have len: "length m = n" using assms(1) by (simp add: dims_def)
  have "rotate90 m ! i = rev (map (\<lambda>row. row ! i) m)"
    using assms(3) by (simp add: rotate90_def transpose_m_dims [OF assms(1,2)])
  then show ?thesis using assms(4) len by (simp add: rev_nth)
qed

lemma rotate90_rows_dims:
  assumes "dims m n k" and "0 < n"
  shows "dims (rotate90_rows m) k n"
  using assms by (simp add: rotate90_rows_def transpose_m_dims [OF assms] dims_def)

lemma rotate90_rows_nth:
  assumes "dims m n k" and "0 < n" and "i < k" and "j < n"
  shows "rotate90_rows m ! i ! j = m ! j ! (k - Suc i)"
proof -
  have "rotate90_rows m ! i = map (\<lambda>row. row ! (k - Suc i)) m"
    using assms(3) by (simp add: rotate90_rows_def transpose_m_dims [OF assms(1,2)] rev_nth)
  then show ?thesis using assms(1,4) by (simp add: dims_def)
qed

text \<open>
  Two quarter turns are a half turn, whichever way the quarter turn goes; and two half
  turns give back the matrix.
\<close>

lemma rotate90_twice_nth:
  assumes "dims m n k" and "0 < n" and "0 < k" and "i < n" and "j < k"
  shows "rotate90 (rotate90 m) ! i ! j = m ! (n - Suc i) ! (k - Suc j)"
proof -
  have d1: "dims (rotate90 m) k n" by (rule rotate90_dims [OF assms(1,2)])
  have "rotate90 (rotate90 m) ! i ! j = rotate90 m ! (k - Suc j) ! i"
    by (rule rotate90_nth [OF d1 assms(3,4,5)])
  also have "\<dots> = m ! (n - Suc i) ! (k - Suc j)"
    using assms(3,4,5) by (intro rotate90_nth [OF assms(1,2)]) simp_all
  finally show ?thesis .
qed

lemma rotate90_rows_twice_nth:
  assumes "dims m n k" and "0 < n" and "0 < k" and "i < n" and "j < k"
  shows "rotate90_rows (rotate90_rows m) ! i ! j = m ! (n - Suc i) ! (k - Suc j)"
proof -
  have d1: "dims (rotate90_rows m) k n" by (rule rotate90_rows_dims [OF assms(1,2)])
  have "rotate90_rows (rotate90_rows m) ! i ! j = rotate90_rows m ! j ! (n - Suc i)"
    by (rule rotate90_rows_nth [OF d1 assms(3,4,5)])
  also have "\<dots> = m ! (n - Suc i) ! (k - Suc j)"
    using assms(3,4,5) by (intro rotate90_rows_nth [OF assms(1,2)]) simp_all
  finally show ?thesis .
qed

lemma two_half_turns:
  assumes d: "dims m n k" and d2: "dims m2 n k" and d4: "dims m4 n k"
    and h1: "\<And>i j. i < n \<Longrightarrow> j < k \<Longrightarrow> m2 ! i ! j = m ! (n - Suc i) ! (k - Suc j)"
    and h2: "\<And>i j. i < n \<Longrightarrow> j < k \<Longrightarrow> m4 ! i ! j = m2 ! (n - Suc i) ! (k - Suc j)"
  shows "m4 = m"
proof (rule nth_equalityI)
  show "length m4 = length m" using d d4 by (simp add: dims_def)
next
  fix i assume "i < length m4"
  then have i: "i < n" using d4 by (simp add: dims_def)
  have l4: "length (m4 ! i) = k" using d4 i by (simp add: dims_def)
  have l: "length (m ! i) = k" using d i by (simp add: dims_def)
  show "m4 ! i = m ! i"
  proof (rule nth_equalityI)
    show "length (m4 ! i) = length (m ! i)" using l4 l by simp
  next
    fix j assume "j < length (m4 ! i)"
    then have j: "j < k" using l4 by simp
    have "m4 ! i ! j = m2 ! (n - Suc i) ! (k - Suc j)" by (rule h2 [OF i j])
    also have "\<dots> = m ! (n - Suc (n - Suc i)) ! (k - Suc (k - Suc j))"
      using i j by (intro h1) simp_all
    also have "\<dots> = m ! i ! j" using i j by simp
    finally show "m4 ! i ! j = m ! i ! j" .
  qed
qed

lemma rotate90_four_dims:
  assumes "dims m n k" and "0 < n" and "0 < k"
  shows "rotate90 (rotate90 (rotate90 (rotate90 m))) = m"
proof -
  let ?m2 = "rotate90 (rotate90 m)"
  have d1: "dims (rotate90 m) k n" by (rule rotate90_dims [OF assms(1,2)])
  have d2: "dims ?m2 n k" by (rule rotate90_dims [OF d1 assms(3)])
  have d3: "dims (rotate90 ?m2) k n" by (rule rotate90_dims [OF d2 assms(2)])
  have d4: "dims (rotate90 (rotate90 ?m2)) n k" by (rule rotate90_dims [OF d3 assms(3)])
  show ?thesis
    using assms(1) d2 d4 rotate90_twice_nth [OF assms] rotate90_twice_nth [OF d2 assms(2,3)]
    by (rule two_half_turns)
qed

lemma rotate90_rows_four_dims:
  assumes "dims m n k" and "0 < n" and "0 < k"
  shows "rotate90_rows (rotate90_rows (rotate90_rows (rotate90_rows m))) = m"
proof -
  let ?m2 = "rotate90_rows (rotate90_rows m)"
  have d1: "dims (rotate90_rows m) k n" by (rule rotate90_rows_dims [OF assms(1,2)])
  have d2: "dims ?m2 n k" by (rule rotate90_rows_dims [OF d1 assms(3)])
  have d3: "dims (rotate90_rows ?m2) k n" by (rule rotate90_rows_dims [OF d2 assms(2)])
  have d4: "dims (rotate90_rows (rotate90_rows ?m2)) n k"
    by (rule rotate90_rows_dims [OF d3 assms(3)])
  show ?thesis
    using assms(1) d2 d4 rotate90_rows_twice_nth [OF assms]
      rotate90_rows_twice_nth [OF d2 assms(2,3)]
    by (rule two_half_turns)
qed

lemma rotate90_Nil: "rotate90 [] = []" "rotate90_rows [] = []"
  by (simp_all add: rotate90_def rotate90_rows_def transpose_m_def)

lemma rectangular_dims:
  assumes "rectangular m" and "[] \<notin> set m" and "m \<noteq> []"
  shows "dims m (length m) (length (hd m)) \<and> 0 < length m \<and> 0 < length (hd m)"
proof -
  from assms(3) obtain r rs where m: "m = r # rs" by (cases m) auto
  with assms(2) have "r \<noteq> []" by auto
  with m assms(1) show ?thesis by (simp add: rectangular_def dims_def list_all_iff)
qed

lemma no_columns_rotate:
  assumes "rectangular m" and "[] \<in> set m"
  shows "rotate90 m = [] \<and> rotate90_rows m = [] \<and> same_cells [] m"
proof -
  from assms(2) obtain r rs where m: "m = r # rs" by (cases m) auto
  from assms have "length (hd m) = 0" by (auto simp: rectangular_def list_all_iff)
  with m have r: "r = []" by simp
  have rows: "\<forall>row \<in> set m. row = []"
    using assms(1) \<open>length (hd m) = 0\<close> by (simp add: rectangular_def list_all_iff)
  have "transpose_m m = []" using m r by (simp add: transpose_m_def)
  have "m ! i = []" if "i < length m" for i
    using rows that nth_mem by blast
  then have "same_cells [] m"
    by (simp add: same_cells_def cell_at_def)
  moreover note \<open>transpose_m m = []\<close>
  ultimately show ?thesis by (simp add: rotate90_def rotate90_rows_def)
qed

text \<open>
  Claim C6. Four applications of the 90-degree rotation (transpose, then every row
  reversed) to a rectangular matrix give a matrix equal to it cell for cell; so do four
  applications of the rotation read the other way (transpose, then the order of the rows
  reversed). For a matrix with at least one column, as every shape is, the result is the
  very same array of rows.
\<close>

theorem rotate90_four_times:
  assumes "rectangular m"
  shows "same_cells (rotate90 (rotate90 (rotate90 (rotate90 m)))) m \<and>
         same_cells (rotate90_rows (rotate90_rows (rotate90_rows (rotate90_rows m)))) m \<and>
         ([] \<notin> set m \<longrightarrow>
            rotate90 (rotate90 (rotate90 (rotate90 m))) = m \<and>
            rotate90_rows (rotate90_rows (rotate90_rows (rotate90_rows m))) = m)"
proof (cases "[] \<in> set m")
  case True
  with assms have "rotate90 m = [] \<and> rotate90_rows m = [] \<and> same_cells [] m"
    by (rule no_columns_rotate)
  with True show ?thesis by (simp add: rotate90_Nil)
next
  case False
  have eq: "rotate90 (rotate90 (rotate90 (rotate90 m))) = m \<and>
            rotate90_rows (rotate90_rows (rotate90_rows (rotate90_rows m))) = m"
  proof (cases "m = []")
    case True
    then show ?thesis by (simp add: rotate90_Nil)
  next
    case ne: False
    with assms False
    have "dims m (length m) (length (hd m)) \<and> 0 < length m \<and> 0 < length (hd m)"
      by (intro rectangular_dims)
    then show ?thesis
      using rotate90_four_dims rotate90_rows_four_dims by blast
  qed
  then show ?thesis by (simp add: same_cells_def)
qed

theorem rotate90_four_times_witness:
  "rectangular [[0, 1, 0], [1, 1, 1 :: int]] \<and> [] \<notin> set [[0, 1, 0], [1, 1, 1 :: int]] \<and>
   rotate90 [[0, 1, 0], [1, 1, 1 :: int]] = [[1, 0], [1, 1], [1, 0]] \<and>
   rotate90_rows [[0, 1, 0], [1, 1, 1 :: int]] = [[0, 1], [1, 1], [0, 1]] \<and>
   rotate90 (rotate90 (rotate90 (rotate90 [[0, 1, 0], [1, 1, 1 :: int]]))) = [[0, 1, 0], [1, 1, 1]] \<and>
   rotate90_rows (rotate90_rows (rotate90_rows (rotate90_rows [[0, 1, 0], [1, 1, 1 :: int]])))
     = [[0, 1, 0], [1, 1, 1]] \<and>
   same_cells (rotate90 (rotate90 (rotate90 (rotate90 [[0, 1, 0], [1, 1, 1 :: int]]))))
     [[0, 1, 0], [1, 1, 1]]"
proof -
  have h1: "rectangular [[0, 1, 0], [1, 1, 1 :: int]]" by (simp add: rectangular_def)
  have h2: "[] \<notin> set [[0, 1, 0], [1, 1, 1 :: int]]" by simp
  have ev: "rotate90 [[0, 1, 0], [1, 1, 1 :: int]] = [[1, 0], [1, 1], [1, 0]]"
    "rotate90_rows [[0, 1, 0], [1, 1, 1 :: int]] = [[0, 1], [1, 1], [0, 1]]"
    by (simp_all add: rotate90_def rotate90_rows_def transpose_m_def upt_rec)
  from h1 h2 ev rotate90_four_times [OF h1] show ?thesis by blast
qed


section \<open>Sending a placement\<close>









section \<open>The catalog\<close>

text \<open>
  Claim C9. The catalog has exactly seven entries, named I, O, T, L, J, S, Z in this order,
  each with the shape and the colour of the source, and every shape is a non-empty
  rectangular matrix of entries 0 and 1.
\<close>

theorem TETRIS_PIECES_catalog:
  "length TETRIS_PIECES = 7 \<and>
   map fst TETRIS_PIECES = [''I'', ''O'', ''T'', ''L'', ''J'', ''S'', ''Z''] \<and>
   distinct (map fst TETRIS_PIECES) \<and>
   map (\<lambda>(name, p). (name, shape p)) TETRIS_PIECES =
     [(''I'', [[1, 1, 1, 1]]),
      (''O'', [[1, 1], [1, 1]]),
      (''T'', [[0, 1, 0], [1, 1, 1]]),
      (''L'', [[1, 0, 0], [1, 1, 1]]),
      (''J'', [[0, 0, 1], [1, 1, 1]]),
      (''S'', [[0, 1, 1], [1, 1, 0]]),
      (''Z'', [[1, 1, 0], [0, 1, 1]])] \<and>
   map (\<lambda>(name, p). (name, color p)) TETRIS_PIECES =
     [(''I'', Some ''#00FFFF''), (''O'', Some ''#FFFF00''), (''T'', Some ''#800080''),
      (''L'', Some ''#FFA500''), (''J'', Some ''#0000FF''), (''S'', Some ''#00FF00''),
      (''Z'', Some ''#FF0000'')] \<and>
   list_all (\<lambda>(name, p). well_formed_shape (shape p)) TETRIS_PIECES"
  by (simp add: TETRIS_PIECES_def well_formed_shape_def rectangular_def)

section \<open>Purity of the validator\<close>

text \<open>
  Claim C5. A call of \<open>checkValidPlacement\<close> leaves the component state as it was, and
  its result depends on the state through the grid only: two calls with the same grid,
  shape and pixel coordinates return the same boolean.
\<close>

theorem checkValidPlacement_pure:
  "snd (checkValidPlacement_call sh x y st) = st \<and>
   (grid (gameState st) = grid (gameState st') \<longrightarrow>
      fst (checkValidPlacement_call sh x y st) = fst (checkValidPlacement_call sh x y st'))"
  by (simp add: checkValidPlacement_call_def)

theorem checkValidPlacement_pure_witness:
  "grid (gameState initial_client) =
     grid (gameState (initial_client\<lparr>roomId := ''room'', isValidPlacement := False\<rparr>)) \<and>
   snd (checkValidPlacement_call [[1, 1], [1, 1]] 85 130 initial_client) = initial_client \<and>
   fst (checkValidPlacement_call [[1, 1], [1, 1]] 85 130 initial_client) =
     fst (checkValidPlacement_call [[1, 1], [1, 1]] 85 130
            (initial_client\<lparr>roomId := ''room'', isValidPlacement := False\<rparr>))"
proof -
  have h: "grid (gameState initial_client) =
     grid (gameState (initial_client\<lparr>roomId := ''room'', isValidPlacement := False\<rparr>))"
    by simp
  from h checkValidPlacement_pure [of "[[1, 1], [1, 1]]" 85 130 initial_client
      "initial_client\<lparr>roomId := ''room'', isValidPlacement := False\<rparr>"]
  show ?thesis by blast
qed

section \<open>Messages from the server\<close>

text \<open>
  Claim C7. On a \<open>piece_placed\<close> message the grid, the score and the offered piece become
  those of the message and the held piece is cleared; the players map, the other fields
  of the game state and every other part of the component state stay as they were.
\<close>

theorem piece_placed_frame:
  "grid (gameState (onmessage cp (PiecePlaced g s np) st)) = g \<and>
   score (gameState (onmessage cp (PiecePlaced g s np) st)) = s \<and>
   nextPiece (gameState (onmessage cp (PiecePlaced g s np) st)) = np \<and>
   currentPiece (onmessage cp (PiecePlaced g s np) st) = None \<and>
   players (gameState (onmessage cp (PiecePlaced g s np) st)) = players (gameState st) \<and>
   playerName_gs (gameState (onmessage cp (PiecePlaced g s np) st)) = playerName_gs (gameState st) \<and>
   playerColor (gameState (onmessage cp (PiecePlaced g s np) st)) = playerColor (gameState st) \<and>
   roomId (onmessage cp (PiecePlaced g s np) st) = roomId st \<and>
   playerName (onmessage cp (PiecePlaced g s np) st) = playerName st \<and>
   isConnected (onmessage cp (PiecePlaced g s np) st) = isConnected st \<and>
   dragState (onmessage cp (PiecePlaced g s np) st) = dragState st \<and>
   piecePosition (onmessage cp (PiecePlaced g s np) st) = piecePosition st \<and>
   isValidPlacement (onmessage cp (PiecePlaced g s np) st) = isValidPlacement st \<and>
   wsRef (onmessage cp (PiecePlaced g s np) st) = wsRef st \<and>
   gridRef (onmessage cp (PiecePlaced g s np) st) = gridRef st \<and>
   connectToGame_currentPiece (onmessage cp (PiecePlaced g s np) st) =
     connectToGame_currentPiece st \<and>
   sent (onmessage cp (PiecePlaced g s np) st) = sent st \<and>
   onmessage cp (PiecePlaced g s np) st =
     st\<lparr>gameState := \<lparr>grid = g, players = players (gameState st), score = s, nextPiece = np,
                       playerName_gs = playerName_gs (gameState st),
                       playerColor = playerColor (gameState st)\<rparr>,
        currentPiece := None\<rparr>"
  by simp

text \<open>
  Claim C3 does not hold of the code. The handler tests the \<open>currentPiece\<close> of its own
  closure, which is the one of the render in which \<open>connectToGame\<close> was memoised. A
  player enters room and name, joins, is offered the piece I, claims it and asks for a
  rotation: the component holds the piece and has sent \<open>rotate_piece\<close>, the handler
  still sees no piece, and the \<open>piece_rotated\<close> answer changes nothing.
\<close>

theorem piece_rotated_stale_closure:
  "currentPiece (run initial_client
       [SetRoomId ''room'', SetPlayerName ''ann'', JoinGame, OnOpen,
        OnMessage (GameStateMsg
          \<lparr>grid = initial_grid, players = Map.empty, score = 0,
           nextPiece = Some \<lparr>shape = [[1, 1, 1, 1]], color = Some ''#00FFFF'', piece_id = None\<rparr>,
           playerName_gs = ''ann'', playerColor = ''#123456''\<rparr>),
        GetNewPiece 1000, RotatePiece]) =
     Some \<lparr>shape = [[1, 1, 1, 1]], color = Some ''#00FFFF'', piece_id = Some 1000\<rparr> \<and>
   sent (run initial_client
       [SetRoomId ''room'', SetPlayerName ''ann'', JoinGame, OnOpen,
        OnMessage (GameStateMsg
          \<lparr>grid = initial_grid, players = Map.empty, score = 0,
           nextPiece = Some \<lparr>shape = [[1, 1, 1, 1]], color = Some ''#00FFFF'', piece_id = None\<rparr>,
           playerName_gs = ''ann'', playerColor = ''#123456''\<rparr>),
        GetNewPiece 1000, RotatePiece]) =
     [RotatePieceMsg [[1, 1, 1, 1]]] \<and>
   wsRef (run initial_client
       [SetRoomId ''room'', SetPlayerName ''ann'', JoinGame, OnOpen,
        OnMessage (GameStateMsg
          \<lparr>grid = initial_grid, players = Map.empty, score = 0,
           nextPiece = Some \<lparr>shape = [[1, 1, 1, 1]], color = Some ''#00FFFF'', piece_id = None\<rparr>,
           playerName_gs = ''ann'', playerColor = ''#123456''\<rparr>),
        GetNewPiece 1000, RotatePiece]) =
     Some \<lparr>ws_roomId = ''room'', ws_playerName = ''ann'', handler_currentPiece = None\<rparr> \<and>
   receive (PieceRotated [[1], [1], [1], [1]]) (run initial_client
       [SetRoomId ''room'', SetPlayerName ''ann'', JoinGame, OnOpen,
        OnMessage (GameStateMsg
          \<lparr>grid = initial_grid, players = Map.empty, score = 0,
           nextPiece = Some \<lparr>shape = [[1, 1, 1, 1]], color = Some ''#00FFFF'', piece_id = None\<rparr>,
           playerName_gs = ''ann'', playerColor = ''#123456''\<rparr>),
        GetNewPiece 1000, RotatePiece]) =
     run initial_client
       [SetRoomId ''room'', SetPlayerName ''ann'', JoinGame, OnOpen,
        OnMessage (GameStateMsg
          \<lparr>grid = initial_grid, players = Map.empty, score = 0,
           nextPiece = Some \<lparr>shape = [[1, 1, 1, 1]], color = Some ''#00FFFF'', piece_id = None\<rparr>,
           playerName_gs = ''ann'', playerColor = ''#123456''\<rparr>),
        GetNewPiece 1000, RotatePiece]"
  by (simp add: run_def initial_client_def setRoomId_def setPlayerName_def joinGame_def
      connectToGame_def onopen_def receive_def getNewPiece_def rotatePiece_def)

text \<open>
  What the handler does when its closure does see a piece: the shape of the piece held
  at the time of the message is replaced, the rest of the piece and of the state stays.
\<close>

lemma onmessage_piece_rotated:
  "onmessage (Some q) (PieceRotated sh) (st\<lparr>currentPiece := Some p\<rparr>) =
     st\<lparr>currentPiece := Some (p\<lparr>shape := sh\<rparr>)\<rparr>"
  "onmessage None (PieceRotated sh) st = st"
  by simp_all

section \<open>Claiming the offered piece\<close>

text \<open>
  Claim C8. \<open>getNewPiece\<close> sends nothing. With an offered piece it sets the held piece
  to a copy of it (same shape and colour) with the clock reading as id and changes no
  other field, the offered piece included; with no offered piece it changes nothing.
\<close>

theorem getNewPiece_local:
  "(case nextPiece (gameState st) of
      None \<Rightarrow> getNewPiece now st = st
    | Some np \<Rightarrow>
        getNewPiece now st =
          st\<lparr>currentPiece := Some \<lparr>shape = shape np, color = color np, piece_id = Some now\<rparr>\<rparr>) \<and>
   sent (getNewPiece now st) = sent st \<and>
   gameState (getNewPiece now st) = gameState st \<and>
   roomId (getNewPiece now st) = roomId st \<and>
   playerName (getNewPiece now st) = playerName st \<and>
   isConnected (getNewPiece now st) = isConnected st \<and>
   dragState (getNewPiece now st) = dragState st \<and>
   piecePosition (getNewPiece now st) = piecePosition st \<and>
   isValidPlacement (getNewPiece now st) = isValidPlacement st \<and>
   wsRef (getNewPiece now st) = wsRef st \<and>
   gridRef (getNewPiece now st) = gridRef st \<and>
   connectToGame_currentPiece (getNewPiece now st) = connectToGame_currentPiece st"
  by (simp add: getNewPiece_def split: option.split)

theorem getNewPiece_local_witness:
  "nextPiece (gameState (initial_client
      \<lparr>gameState := (gameState initial_client)
         \<lparr>nextPiece := Some \<lparr>shape = [[1, 1], [1, 1]], color = Some ''#FFFF00'',
                               piece_id = None\<rparr>\<rparr>\<rparr>)) =
     Some \<lparr>shape = [[1, 1], [1, 1]], color = Some ''#FFFF00'', piece_id = None\<rparr> \<and>
   currentPiece (getNewPiece 1000 (initial_client
      \<lparr>gameState := (gameState initial_client)
         \<lparr>nextPiece := Some \<lparr>shape = [[1, 1], [1, 1]], color = Some ''#FFFF00'',
                               piece_id = None\<rparr>\<rparr>\<rparr>)) =
     Some \<lparr>shape = [[1, 1], [1, 1]], color = Some ''#FFFF00'', piece_id = Some 1000\<rparr> \<and>
   getNewPiece 1000 initial_client = initial_client"
proof -
  let ?st = "initial_client
      \<lparr>gameState := (gameState initial_client)
         \<lparr>nextPiece := Some \<lparr>shape = [[1, 1], [1, 1]], color = Some ''#FFFF00'',
                               piece_id = None\<rparr>\<rparr>\<rparr>"
  have offered: "nextPiece (gameState ?st) =
      Some \<lparr>shape = [[1, 1], [1, 1]], color = Some ''#FFFF00'', piece_id = None\<rparr>"
    by simp
  have none: "nextPiece (gameState initial_client) = None"
    by (simp add: initial_client_def)
  have "currentPiece (getNewPiece 1000 ?st) =
      Some \<lparr>shape = [[1, 1], [1, 1]], color = Some ''#FFFF00'', piece_id = Some 1000\<rparr>"
    using getNewPiece_local [where st = ?st and now = 1000] offered by simp
  moreover have "getNewPiece 1000 initial_client = initial_client"
    using getNewPiece_local [where st = initial_client and now = 1000] none by simp
  ultimately show ?thesis using offered by blast
qed


end
